theory Spec2Isabelle
  imports Main "HOL-Library.Word" "HOL-Library.Sublist"
begin

section \<open>Data model of package resolve (graphql/resolve/query.go)\<close>

text \<open>
  A Go \<^verbatim>\<open>[]byte\<close> is a list of bytes that may be the nil slice: \<open>None\<close> is nil.
  A Go \<^verbatim>\<open>error\<close> interface value is \<open>error option\<close>: \<open>None\<close> is the nil error.
  A \<^verbatim>\<open>*gql.GraphQuery\<close> is \<open>'g option\<close> for an opaque type \<open>'g\<close> of native
  queries (\<open>None\<close> is the nil pointer), and \<^verbatim>\<open>context.Context\<close> is an opaque type \<open>'c\<close>.
\<close>

type_synonym byte = "8 word"

type_synonym bytes = "byte list option"

datatype error =
    Failure string
  | GqlWrapped error string

text \<open>The cause chain of an error: the error a wrapper was built from, if any.\<close>

fun Cause :: "error \<Rightarrow> error option" where
  "Cause (Failure m) = None"
| "Cause (GqlWrapped e m) = Some e"

fun Message :: "error \<Rightarrow> string option" where
  "Message (Failure m) = None"
| "Message (GqlWrapped e m) = Some m"

text \<open>
  Modelled from the spec: \<^verbatim>\<open>schema.GQLWrapf(err, format, args...)\<close> lives in package
  schema, which is not part of the source at hand. The spec says an error crossing a
  collaborator boundary is wrapped with a human-readable context while the underlying
  error is preserved in the cause chain. The second argument is the context after
  formatting; the function is only called on a non-nil error.
\<close>

definition GQLWrapf :: "error \<Rightarrow> string \<Rightarrow> error" where
  "GQLWrapf err msg = GqlWrapped err msg"

record HTTPResolverConfig =
  URL :: string
  Method :: string
  Body :: string

text \<open>
  \<^verbatim>\<open>schema.Query\<close> is an interface; the resolvers use two of its methods, both read-only
  accessors: \<^verbatim>\<open>ResponseName()\<close> and \<^verbatim>\<open>HTTPResolver()\<close>. A query field is the record
  of what they return.
\<close>

record Query =
  ResponseName :: string
  HTTPResolver :: "HTTPResolverConfig \<times> error option"

record Resolved =
  Data :: bytes
  Err :: "error option"

text \<open>
  What \<^verbatim>\<open>net/http\<close> hands around. A response body is a reader that yields some bytes
  and then either ends or fails; \<^verbatim>\<open>ioutil.ReadAll\<close> returns the bytes read together
  with the failure, if any.
\<close>

record Request =
  ReqMethod :: string
  ReqURL :: string
  ReqBody :: string

datatype ReadCloser = ReadCloser "byte list" "error option"

record Response =
  StatusCode :: nat
  RespBody :: ReadCloser

fun ReadAll :: "ReadCloser \<Rightarrow> bytes \<times> error option" where
  "ReadAll (ReadCloser bs e) = (Some bs, e)"

section \<open>Effects\<close>

text \<open>
  Everything a resolver does besides returning is recorded in order: each call of a
  collaborator with its arguments, each log line, and the opening and closing of the
  trace span and of a response body.
\<close>

datatype ('c, 'g) event =
    SpanStart string
  | SpanStop string
  | EvRewrite 'c Query
  | EvQuery 'c "'g option"
  | EvInfof string error
  | EvComplete 'c Query bytes "error option"
  | EvHTTPResolver Query
  | EvNewRequest string string string
  | EvDo Request
  | EvReadAll ReadCloser
  | EvClose ReadCloser

text \<open>
  The state threaded through a resolution: the events so far, and the state \<open>'s\<close> of
  the world outside the resolver (the store, the network), which only the collaborators
  read and change.
\<close>

record ('c, 'g, 's) world =
  calls :: "('c, 'g) event list"
  outside :: 's

definition emit :: "('c, 'g) event \<Rightarrow> ('c, 'g, 's) world \<Rightarrow> ('c, 'g, 's) world" where
  "emit ev w = w\<lparr>calls := calls w @ [ev]\<rparr>"

definition invoke ::
  "('c, 'g) event \<Rightarrow> ('s \<Rightarrow> 'a \<times> 's) \<Rightarrow> ('c, 'g, 's) world \<Rightarrow> 'a \<times> ('c, 'g, 's) world" where
  "invoke ev f w =
     (case f (outside w) of (r, s') \<Rightarrow> (r, \<lparr>calls = calls w @ [ev], outside = s'\<rparr>))"

section \<open>Collaborators\<close>

text \<open>
  A collaborator is what its Go signature says: a function that returns a value and an
  error, the error being how it fails. It may read and change the outside world, so it
  takes the state \<open>'s\<close> and returns the new one; its answer may depend on every
  argument and on that state. The interface values are taken to be non-nil. A
  collaborator that panics instead of returning is not part of this model: neither
  \<^verbatim>\<open>Resolve\<close> has a recover, so such a panic would pass through to the caller.
\<close>

type_synonym ('c, 'g, 's) QueryRewriter =
  "'c \<Rightarrow> Query \<Rightarrow> 's \<Rightarrow> ('g option \<times> error option) \<times> 's"

type_synonym ('c, 'g, 's) QueryExecutor =
  "'c \<Rightarrow> 'g option \<Rightarrow> 's \<Rightarrow> (bytes \<times> error option) \<times> 's"

type_synonym ('c, 's) ResultCompleter =
  "'c \<Rightarrow> Query \<Rightarrow> bytes \<Rightarrow> error option \<Rightarrow> 's \<Rightarrow> (bytes \<times> error option) \<times> 's"

type_synonym 's HTTPClient = "Request \<Rightarrow> 's \<Rightarrow> (error + Response) \<times> 's"

text \<open>The function adapters: a function of the right shape is the collaborator.\<close>

definition Rewrite :: "('c, 'g, 's) QueryRewriter \<Rightarrow> ('c, 'g, 's) QueryRewriter" where
  "Rewrite qr ctx q = qr ctx q"

definition Query_exec :: "('c, 'g, 's) QueryExecutor \<Rightarrow> ('c, 'g, 's) QueryExecutor" where
  "Query_exec qe ctx query = qe ctx query"

definition NoOpQueryExecution :: "('c, 'g, 's) QueryExecutor" where
  "NoOpQueryExecution ctx query s = ((None, None), s)"

definition NoOpQueryRewrite :: "('c, 'g, 's) QueryRewriter" where
  "NoOpQueryRewrite ctx q s = ((None, None), s)"

text \<open>
  \<^verbatim>\<open>schema.Introspect\<close> is not part of the source at hand; it is the parameter
  \<open>Introspect\<close>.
\<close>

definition introspectionExecution ::
  "(Query \<Rightarrow> 's \<Rightarrow> (bytes \<times> error option) \<times> 's) \<Rightarrow> Query \<Rightarrow> ('c, 'g, 's) QueryExecutor" where
  "introspectionExecution Introspect q ctx query s = Introspect q s"

section \<open>The store-backed resolver\<close>

record ('c, 'g, 's) queryResolver =
  queryRewriter :: "('c, 'g, 's) QueryRewriter"
  queryExecutor :: "('c, 'g, 's) QueryExecutor"
  resultCompleter :: "('c, 's) ResultCompleter"

definition NewQueryResolver ::
  "('c, 'g, 's) QueryRewriter \<Rightarrow> ('c, 'g, 's) QueryExecutor \<Rightarrow> ('c, 's) ResultCompleter
     \<Rightarrow> ('c, 'g, 's) queryResolver" where
  "NewQueryResolver qr qe rc =
     \<lparr>queryRewriter = qr, queryExecutor = qe, resultCompleter = rc\<rparr>"

definition queryResolver_rewriteAndExecute ::
  "('c, 'g, 's) queryResolver \<Rightarrow> 'c \<Rightarrow> Query \<Rightarrow> ('c, 'g, 's) world
     \<Rightarrow> (bytes \<times> error option) \<times> ('c, 'g, 's) world" where
  "queryResolver_rewriteAndExecute qr ctx query w =
     (case invoke (EvRewrite ctx query) (Rewrite (queryRewriter qr) ctx query) w of
        ((dgQuery, err), w1) \<Rightarrow>
          (case err of
             Some e \<Rightarrow>
               ((None, Some (GQLWrapf e (''couldn't rewrite query '' @ ResponseName query))), w1)
           | None \<Rightarrow>
               (case invoke (EvQuery ctx dgQuery) (Query_exec (queryExecutor qr) ctx dgQuery) w1 of
                  ((resp, err2), w2) \<Rightarrow>
                    (case err2 of
                       Some e \<Rightarrow>
                         ((None, Some (GQLWrapf e ''Dgraph query failed'')),
                          emit (EvInfof ''Dgraph query execution failed : %s'' e) w2)
                     | None \<Rightarrow> ((resp, None), w2)))))"

text \<open>
  Modelled from the spec: \<^verbatim>\<open>x.SpanTimer\<close> is not part of the source at hand. The spec
  says every \<^verbatim>\<open>Resolve\<close> call opens exactly one trace span named for its resolution
  kind, closed on every exit path: the span is the pair of events \<open>SpanStart\<close> and
  \<open>SpanStop\<close>, the second one deferred to the return.
\<close>

definition queryResolver_Resolve ::
  "('c, 'g, 's) queryResolver \<Rightarrow> 'c \<Rightarrow> Query \<Rightarrow> ('c, 'g, 's) world
     \<Rightarrow> Resolved option \<times> ('c, 'g, 's) world" where
  "queryResolver_Resolve qr ctx query w =
     (case queryResolver_rewriteAndExecute qr ctx query (emit (SpanStart ''resolveQuery'') w) of
        ((res, err), w1) \<Rightarrow>
          (case invoke (EvComplete ctx query res err) (queryResolver.resultCompleter qr ctx query res err) w1 of
             ((completed, err'), w2) \<Rightarrow>
               (Some \<lparr>Data = completed, Err = err'\<rparr>, emit (SpanStop ''resolveQuery'') w2)))"

section \<open>The HTTP-backed resolver\<close>

record ('c, 'g, 's) httpResolver =
  Client :: "'s HTTPClient"
  httpRewriter :: "('c, 'g, 's) QueryRewriter"
  httpExecutor :: "('c, 'g, 's) QueryExecutor"
  resultCompleter :: "('c, 's) ResultCompleter"

definition NewHTTPResolver ::
  "'s HTTPClient \<Rightarrow> ('c, 'g, 's) QueryRewriter \<Rightarrow> ('c, 'g, 's) QueryExecutor
     \<Rightarrow> ('c, 's) ResultCompleter \<Rightarrow> ('c, 'g, 's) httpResolver" where
  "NewHTTPResolver hc qr qe rc =
     \<lparr>Client = hc, httpRewriter = qr, httpExecutor = qe, resultCompleter = rc\<rparr>"

text \<open>
  \<^verbatim>\<open>http.NewRequest\<close> belongs to the Go library; it is the parameter \<open>NewRequest\<close>,
  which gives either an error or a request. \<^verbatim>\<open>hr.Do\<close> is the client, which gives
  either an error or a response: the Go library documents for both that a nil error
  comes with a non-nil value, and the source ignores the value beside an error. The deferred \<^verbatim>\<open>resp.Body.Close()\<close> runs when
  \<^verbatim>\<open>rewriteAndExecute\<close> returns, after the body was read.
\<close>

definition httpResolver_rewriteAndExecute ::
  "(string \<Rightarrow> string \<Rightarrow> string \<Rightarrow> error + Request) \<Rightarrow> ('c, 'g, 's) httpResolver \<Rightarrow> 'c \<Rightarrow> Query
     \<Rightarrow> ('c, 'g, 's) world \<Rightarrow> (bytes \<times> error option) \<times> ('c, 'g, 's) world" where
  "httpResolver_rewriteAndExecute NewRequest hr ctx query w =
     (case HTTPResolver query of
        (hrc, err) \<Rightarrow>
          (case err of
             Some e \<Rightarrow> ((None, Some e), emit (EvHTTPResolver query) w)
           | None \<Rightarrow>
               (case NewRequest (Method hrc) (URL hrc) (Body hrc) of
                  Inl e \<Rightarrow>
                    ((None, Some e),
                     emit (EvNewRequest (Method hrc) (URL hrc) (Body hrc))
                       (emit (EvHTTPResolver query) w))
                | Inr req \<Rightarrow>
                    (case invoke (EvDo req) (Client hr req)
                            (emit (EvNewRequest (Method hrc) (URL hrc) (Body hrc))
                               (emit (EvHTTPResolver query) w)) of
                       (Inl e, w1) \<Rightarrow> ((None, Some e), w1)
                     | (Inr resp, w1) \<Rightarrow>
                         (case ReadAll (RespBody resp) of
                            (b, err2) \<Rightarrow>
                              ((b, err2),
                               emit (EvClose (RespBody resp))
                                 (emit (EvReadAll (RespBody resp)) w1)))))))"

definition httpResolver_Resolve ::
  "(string \<Rightarrow> string \<Rightarrow> string \<Rightarrow> error + Request) \<Rightarrow> ('c, 'g, 's) httpResolver \<Rightarrow> 'c \<Rightarrow> Query
     \<Rightarrow> ('c, 'g, 's) world \<Rightarrow> Resolved option \<times> ('c, 'g, 's) world" where
  "httpResolver_Resolve NewRequest hr ctx query w =
     (case httpResolver_rewriteAndExecute NewRequest hr ctx query
             (emit (SpanStart ''resolveHTTPQuery'') w) of
        ((res, err), w1) \<Rightarrow>
          (case invoke (EvComplete ctx query res err) (httpResolver.resultCompleter hr ctx query res err) w1 of
             ((completed, err'), w2) \<Rightarrow>
               (Some \<lparr>Data = completed, Err = err'\<rparr>, emit (SpanStop ''resolveHTTPQuery'') w2)))"

section \<open>Observations on the recorded events\<close>

fun isComplete :: "('c, 'g) event \<Rightarrow> bool" where
  "isComplete (EvComplete ctx q b e) = True"
| "isComplete ev = False"

fun isQuery :: "('c, 'g) event \<Rightarrow> bool" where
  "isQuery (EvQuery ctx g) = True"
| "isQuery ev = False"

fun isRequest :: "('c, 'g) event \<Rightarrow> bool" where
  "isRequest (EvNewRequest m u b) = True"
| "isRequest (EvDo req) = True"
| "isRequest ev = False"

text \<open>
  The wrapping the specification asks of every stage, in its own words: the error handed
  onward keeps the collaborator's error \<open>e\<close> as its cause and carries a context that
  mentions the response name of the field.
\<close>

definition wrappedWithStageAndName :: "Query \<Rightarrow> error \<Rightarrow> error \<Rightarrow> bool" where
  "wrappedWithStageAndName q e handed =
     (Cause handed = Some e \<and>
      (case Message handed of None \<Rightarrow> False | Some m \<Rightarrow> sublist (ResponseName q) m))"

section \<open>Concrete fields and collaborators\<close>

text \<open>
  Contexts are \<open>unit\<close>, native queries are strings, and the outside world is a counter
  of the collaborator calls made so far.
\<close>

definition ex_author :: Query where
  "ex_author =
     \<lparr>ResponseName = ''getAuthor'',
      HTTPResolver =
        (\<lparr>URL = ''http://authors.example/api'', Method = ''GET'', Body = ''''\<rparr>, None)\<rparr>"

definition ex_plain :: Query where
  "ex_plain =
     \<lparr>ResponseName = ''queryPost'',
      HTTPResolver =
        (\<lparr>URL = '''', Method = '''', Body = ''''\<rparr>,
         Some (Failure ''queryPost has no custom directive''))\<rparr>"

definition ex_nourl :: Query where
  "ex_nourl =
     \<lparr>ResponseName = ''getBook'',
      HTTPResolver = (\<lparr>URL = '''', Method = ''GET'', Body = ''''\<rparr>, None)\<rparr>"

definition ex_world :: "(unit, string, nat) world" where
  "ex_world = \<lparr>calls = [], outside = 0\<rparr>"

definition rewriter_fails :: "(unit, string, nat) QueryRewriter" where
  "rewriter_fails ctx q s = ((None, Some (Failure ''unknown type'')), Suc s)"

definition rewriter_ok :: "(unit, string, nat) QueryRewriter" where
  "rewriter_ok ctx q s = ((Some (''query '' @ ResponseName q), None), Suc s)"

definition executor_fails :: "(unit, string, nat) QueryExecutor" where
  "executor_fails ctx g s = ((Some [1], Some (Failure ''connection refused'')), Suc s)"

definition executor_ok :: "(unit, string, nat) QueryExecutor" where
  "executor_ok ctx g s = ((Some [111, 107], None), Suc s)"

definition completer_echo :: "(unit, nat) ResultCompleter" where
  "completer_echo ctx q b e s = ((b, e), Suc s)"

definition ex_NewRequest :: "string \<Rightarrow> string \<Rightarrow> string \<Rightarrow> error + Request" where
  "ex_NewRequest m u b =
     (if u = [] then Inl (Failure ''empty url'')
      else Inr \<lparr>ReqMethod = m, ReqURL = u, ReqBody = b\<rparr>)"

definition client_ok :: "nat HTTPClient" where
  "client_ok req s =
     (Inr \<lparr>StatusCode = 200, RespBody = ReadCloser [104, 105] None\<rparr>, Suc s)"

definition client_cut :: "nat HTTPClient" where
  "client_cut req s =
     (Inr \<lparr>StatusCode = 200,
           RespBody = ReadCloser [104] (Some (Failure ''unexpected EOF''))\<rparr>,
      Suc s)"

definition client_fails :: "nat HTTPClient" where
  "client_fails req s = (Inl (Failure ''dial tcp: timeout''), Suc s)"

definition store_rewrite_fails :: "(unit, string, nat) queryResolver" where
  "store_rewrite_fails = NewQueryResolver rewriter_fails executor_ok completer_echo"

definition store_execute_fails :: "(unit, string, nat) queryResolver" where
  "store_execute_fails = NewQueryResolver rewriter_ok executor_fails completer_echo"

definition store_ok :: "(unit, string, nat) queryResolver" where
  "store_ok = NewQueryResolver rewriter_ok executor_ok completer_echo"

definition remote_ok :: "(unit, string, nat) httpResolver" where
  "remote_ok = NewHTTPResolver client_ok rewriter_ok executor_ok completer_echo"

definition remote_cut :: "(unit, string, nat) httpResolver" where
  "remote_cut = NewHTTPResolver client_cut rewriter_ok executor_ok completer_echo"

definition remote_down :: "(unit, string, nat) httpResolver" where
  "remote_down = NewHTTPResolver client_fails rewriter_ok executor_ok completer_echo"

section \<open>Failures of the stages before completion\<close>






section \<open>Helper facts\<close>

lemma calls_emit: "calls (emit ev w) = calls w @ [ev]"
  by (simp add: emit_def)


lemmas store_defs = queryResolver_Resolve_def queryResolver_rewriteAndExecute_def
  invoke_def emit_def Rewrite_def Query_exec_def GQLWrapf_def

lemmas remote_defs = httpResolver_Resolve_def httpResolver_rewriteAndExecute_def
  invoke_def emit_def

lemmas ex_defs = ex_author_def ex_plain_def ex_nourl_def ex_world_def rewriter_fails_def
  rewriter_ok_def executor_fails_def executor_ok_def completer_echo_def ex_NewRequest_def
  client_ok_def client_cut_def client_fails_def NewQueryResolver_def NewHTTPResolver_def
  store_rewrite_fails_def store_execute_fails_def store_ok_def remote_ok_def remote_cut_def
  remote_down_def

text \<open>Neither \<^verbatim>\<open>rewriteAndExecute\<close> calls the completer.\<close>

lemma queryResolver_rewriteAndExecute_completions:
  "filter isComplete (calls (snd (queryResolver_rewriteAndExecute qr ctx query w)))
     = filter isComplete (calls w)"
  by (simp add: store_defs split: prod.splits option.splits)

lemma httpResolver_rewriteAndExecute_completions:
  "filter isComplete (calls (snd (httpResolver_rewriteAndExecute NewRequest hr ctx query w)))
     = filter isComplete (calls w)"
  by (simp add: remote_defs split: prod.splits option.splits sum.splits)

text \<open>\<^verbatim>\<open>Resolve\<close> in terms of what \<^verbatim>\<open>rewriteAndExecute\<close> and the completer return.\<close>

lemma queryResolver_Resolve_eq:
  assumes "queryResolver_rewriteAndExecute qr ctx query (emit (SpanStart ''resolveQuery'') w)
             = ((res, err), w1)"
    and "queryResolver.resultCompleter qr ctx query res err (outside w1) = ((d, e), s2)"
  shows "queryResolver_Resolve qr ctx query w =
           (Some \<lparr>Data = d, Err = e\<rparr>,
            \<lparr>calls = calls w1 @ [EvComplete ctx query res err, SpanStop ''resolveQuery''],
             outside = s2\<rparr>)"
  unfolding queryResolver_Resolve_def assms(1)
  by (simp add: invoke_def assms(2) emit_def)

lemma httpResolver_Resolve_eq:
  assumes "httpResolver_rewriteAndExecute NewRequest hr ctx query
             (emit (SpanStart ''resolveHTTPQuery'') w) = ((res, err), w1)"
    and "httpResolver.resultCompleter hr ctx query res err (outside w1) = ((d, e), s2)"
  shows "httpResolver_Resolve NewRequest hr ctx query w =
           (Some \<lparr>Data = d, Err = e\<rparr>,
            \<lparr>calls = calls w1 @ [EvComplete ctx query res err, SpanStop ''resolveHTTPQuery''],
             outside = s2\<rparr>)"
  unfolding httpResolver_Resolve_def assms(1)
  by (simp add: invoke_def assms(2) emit_def)

lemma wrapped_by_GQLWrapf:
  "wrappedWithStageAndName q e (GQLWrapf e (label @ ResponseName q))"
  unfolding wrappedWithStageAndName_def GQLWrapf_def sublist_def
  by (simp, metis append_Nil2)

section \<open>The scenarios of the specification\<close>

text \<open>
  A field whose rewriter gives a native query, whose executor gives the bytes of "ok" and
  whose completer echoes its input resolves to those bytes and no error.
\<close>

lemma scenario_echo:
  "fst (queryResolver_Resolve store_ok () ex_author ex_world)
     = Some \<lparr>Data = Some [111, 107], Err = None\<rparr>"
  by (simp add: ex_defs store_defs)

text \<open>
  A field whose rewriter fails, with a completer that passes the error through, resolves
  to no data and an error whose context is "couldn't rewrite query getAuthor".
\<close>

lemma scenario_rewrite_error:
  "fst (queryResolver_Resolve store_rewrite_fails () ex_author ex_world)
     = Some \<lparr>Data = None,
             Err = Some (GqlWrapped (Failure ''unknown type'')
                           ''couldn't rewrite query getAuthor'')\<rparr>"
  by (simp add: ex_defs store_defs)

section \<open>Resolve always returns, through the completer\<close>






text \<open>
  C2: On every path of \<^verbatim>\<open>Resolve\<close>, of either resolver, the completer is called exactly
  once, with the context, the field and the result and error that
  \<^verbatim>\<open>rewriteAndExecute\<close> returned, and the \<^verbatim>\<open>Resolved\<close> handed to the caller is
  exactly the pair the completer returned.
\<close>

theorem Resolve_completes_once:
  "(case queryResolver_rewriteAndExecute qr ctx query (emit (SpanStart ''resolveQuery'') w) of
      ((res, err), w1) \<Rightarrow>
        (case queryResolver.resultCompleter qr ctx query res err (outside w1) of
           ((d, e), s2) \<Rightarrow>
             fst (queryResolver_Resolve qr ctx query w) = Some \<lparr>Data = d, Err = e\<rparr> \<and>
             filter isComplete (calls (snd (queryResolver_Resolve qr ctx query w)))
               = filter isComplete (calls w) @ [EvComplete ctx query res err]))
   \<and>
   (case httpResolver_rewriteAndExecute NewRequest hr ctx query
           (emit (SpanStart ''resolveHTTPQuery'') w) of
      ((res, err), w1) \<Rightarrow>
        (case httpResolver.resultCompleter hr ctx query res err (outside w1) of
           ((d, e), s2) \<Rightarrow>
             fst (httpResolver_Resolve NewRequest hr ctx query w) = Some \<lparr>Data = d, Err = e\<rparr> \<and>
             filter isComplete (calls (snd (httpResolver_Resolve NewRequest hr ctx query w)))
               = filter isComplete (calls w) @ [EvComplete ctx query res err]))"
proof
  obtain res err w1 where rw:
    "queryResolver_rewriteAndExecute qr ctx query (emit (SpanStart ''resolveQuery'') w)
       = ((res, err), w1)"
    by (metis surj_pair)
  obtain d e s2 where rc:
    "queryResolver.resultCompleter qr ctx query res err (outside w1) = ((d, e), s2)"
    by (metis surj_pair)
  have "filter isComplete (calls w1)
          = filter isComplete (calls (emit (SpanStart ''resolveQuery'') w))"
    using queryResolver_rewriteAndExecute_completions
            [of qr ctx query "emit (SpanStart ''resolveQuery'') w"]
    by (simp add: rw)
  then have "filter isComplete (calls w1) = filter isComplete (calls w)"
    by (simp add: calls_emit)
  then show "case queryResolver_rewriteAndExecute qr ctx query
                    (emit (SpanStart ''resolveQuery'') w) of
      ((res, err), w1) \<Rightarrow>
        (case queryResolver.resultCompleter qr ctx query res err (outside w1) of
           ((d, e), s2) \<Rightarrow>
             fst (queryResolver_Resolve qr ctx query w) = Some \<lparr>Data = d, Err = e\<rparr> \<and>
             filter isComplete (calls (snd (queryResolver_Resolve qr ctx query w)))
               = filter isComplete (calls w) @ [EvComplete ctx query res err])"
    by (simp add: rw rc queryResolver_Resolve_eq [OF rw rc])
next
  obtain res err w1 where rw:
    "httpResolver_rewriteAndExecute NewRequest hr ctx query
       (emit (SpanStart ''resolveHTTPQuery'') w) = ((res, err), w1)"
    by (metis surj_pair)
  obtain d e s2 where rc:
    "httpResolver.resultCompleter hr ctx query res err (outside w1) = ((d, e), s2)"
    by (metis surj_pair)
  have "filter isComplete (calls w1)
          = filter isComplete (calls (emit (SpanStart ''resolveHTTPQuery'') w))"
    using httpResolver_rewriteAndExecute_completions
            [of NewRequest hr ctx query "emit (SpanStart ''resolveHTTPQuery'') w"]
    by (simp add: rw)
  then have "filter isComplete (calls w1) = filter isComplete (calls w)"
    by (simp add: calls_emit)
  then show "case httpResolver_rewriteAndExecute NewRequest hr ctx query
                    (emit (SpanStart ''resolveHTTPQuery'') w) of
      ((res, err), w1) \<Rightarrow>
        (case httpResolver.resultCompleter hr ctx query res err (outside w1) of
           ((d, e), s2) \<Rightarrow>
             fst (httpResolver_Resolve NewRequest hr ctx query w) = Some \<lparr>Data = d, Err = e\<rparr> \<and>
             filter isComplete (calls (snd (httpResolver_Resolve NewRequest hr ctx query w)))
               = filter isComplete (calls w) @ [EvComplete ctx query res err])"
    by (simp add: rw rc httpResolver_Resolve_eq [OF rw rc])
qed

section \<open>The store-backed pipeline on failure\<close>

text \<open>
  C3: If the rewriter returns a non-nil error, the executor is not called during that
  \<^verbatim>\<open>Resolve\<close>: the only calls are the rewriter and the completer, and the outside world
  is what the completer left of what the rewriter left. The completer receives a nil raw
  result and the rewriter's error wrapped with the context "couldn't rewrite query"
  followed by the response name of the field.
\<close>

theorem rewrite_failure_skips_executor:
  assumes "queryRewriter qr ctx query (outside w) = ((dgQuery, Some e), s1)"
    and "queryResolver.resultCompleter qr ctx query None
           (Some (GQLWrapf e (''couldn't rewrite query '' @ ResponseName query))) s1
         = ((d, e'), s2)"
  shows "queryResolver_Resolve qr ctx query w =
           (Some \<lparr>Data = d, Err = e'\<rparr>,
            \<lparr>calls = calls w @
               [SpanStart ''resolveQuery'', EvRewrite ctx query,
                EvComplete ctx query None
                  (Some (GQLWrapf e (''couldn't rewrite query '' @ ResponseName query))),
                SpanStop ''resolveQuery''],
             outside = s2\<rparr>)
         \<and> filter isQuery (calls (snd (queryResolver_Resolve qr ctx query w)))
             = filter isQuery (calls w)
         \<and> Cause (GQLWrapf e (''couldn't rewrite query '' @ ResponseName query)) = Some e"
  using assms by (simp add: store_defs)

theorem rewrite_failure_skips_executor_witness:
  "queryRewriter store_rewrite_fails () ex_author (outside ex_world)
     = ((None, Some (Failure ''unknown type'')), Suc 0)
   \<and> queryResolver.resultCompleter store_rewrite_fails () ex_author None
         (Some (GQLWrapf (Failure ''unknown type'')
                  (''couldn't rewrite query '' @ ResponseName ex_author))) (Suc 0)
       = ((None, Some (GqlWrapped (Failure ''unknown type'')
                         ''couldn't rewrite query getAuthor'')), Suc (Suc 0))
   \<and> queryResolver_Resolve store_rewrite_fails () ex_author ex_world =
         (Some \<lparr>Data = None,
                Err = Some (GqlWrapped (Failure ''unknown type'')
                              ''couldn't rewrite query getAuthor'')\<rparr>,
          \<lparr>calls =
             [SpanStart ''resolveQuery'', EvRewrite () ex_author,
              EvComplete () ex_author None
                (Some (GqlWrapped (Failure ''unknown type'')
                         ''couldn't rewrite query getAuthor'')),
              SpanStop ''resolveQuery''],
           outside = Suc (Suc 0)\<rparr>)"
proof -
  have h1: "queryRewriter store_rewrite_fails () ex_author (outside ex_world)
              = ((None, Some (Failure ''unknown type'')), Suc 0)"
    by (simp add: ex_defs)
  have h2: "queryResolver.resultCompleter store_rewrite_fails () ex_author None
              (Some (GQLWrapf (Failure ''unknown type'')
                       (''couldn't rewrite query '' @ ResponseName ex_author))) (Suc 0)
            = ((None, Some (GqlWrapped (Failure ''unknown type'')
                              ''couldn't rewrite query getAuthor'')), Suc (Suc 0))"
    by (simp add: ex_defs GQLWrapf_def)
  show ?thesis
    using h1 h2 rewrite_failure_skips_executor [OF h1 h2]
    by (simp add: ex_defs GQLWrapf_def)
qed

text \<open>
  C4: If the rewriter succeeds and the executor returns a non-nil error, the completer
  receives a nil raw result (whatever bytes the executor returned beside the error) and
  the executor's error wrapped with the context "Dgraph query failed". The native query
  is passed to the executor once and appears nowhere after the failed execution: what
  follows is the log line and the completer.
\<close>

theorem execute_failure_wrapped_for_completer:
  assumes "queryRewriter qr ctx query (outside w) = ((dgQuery, None), s1)"
    and "queryExecutor qr ctx dgQuery s1 = ((resp, Some e), s2)"
    and "queryResolver.resultCompleter qr ctx query None
           (Some (GQLWrapf e ''Dgraph query failed'')) s2 = ((d, e'), s3)"
  shows "queryResolver_Resolve qr ctx query w =
           (Some \<lparr>Data = d, Err = e'\<rparr>,
            \<lparr>calls = calls w @
               [SpanStart ''resolveQuery'', EvRewrite ctx query, EvQuery ctx dgQuery,
                EvInfof ''Dgraph query execution failed : %s'' e,
                EvComplete ctx query None (Some (GQLWrapf e ''Dgraph query failed'')),
                SpanStop ''resolveQuery''],
             outside = s3\<rparr>)
         \<and> filter isQuery (calls (snd (queryResolver_Resolve qr ctx query w)))
             = filter isQuery (calls w) @ [EvQuery ctx dgQuery]
         \<and> Cause (GQLWrapf e ''Dgraph query failed'') = Some e"
  using assms by (simp add: store_defs)

theorem execute_failure_wrapped_for_completer_witness:
  "queryRewriter store_execute_fails () ex_author (outside ex_world)
     = ((Some ''query getAuthor'', None), Suc 0)
   \<and> queryExecutor store_execute_fails () (Some ''query getAuthor'') (Suc 0)
       = ((Some [1], Some (Failure ''connection refused'')), Suc (Suc 0))
   \<and> queryResolver.resultCompleter store_execute_fails () ex_author None
         (Some (GQLWrapf (Failure ''connection refused'') ''Dgraph query failed''))
         (Suc (Suc 0))
       = ((None, Some (GqlWrapped (Failure ''connection refused'') ''Dgraph query failed'')),
          Suc (Suc (Suc 0)))
   \<and> queryResolver_Resolve store_execute_fails () ex_author ex_world =
         (Some \<lparr>Data = None,
                Err = Some (GqlWrapped (Failure ''connection refused'')
                              ''Dgraph query failed'')\<rparr>,
          \<lparr>calls =
             [SpanStart ''resolveQuery'', EvRewrite () ex_author,
              EvQuery () (Some ''query getAuthor''),
              EvInfof ''Dgraph query execution failed : %s'' (Failure ''connection refused''),
              EvComplete () ex_author None
                (Some (GqlWrapped (Failure ''connection refused'') ''Dgraph query failed'')),
              SpanStop ''resolveQuery''],
           outside = Suc (Suc (Suc 0))\<rparr>)"
proof -
  have h1: "queryRewriter store_execute_fails () ex_author (outside ex_world)
              = ((Some ''query getAuthor'', None), Suc 0)"
    by (simp add: ex_defs)
  have h2: "queryExecutor store_execute_fails () (Some ''query getAuthor'') (Suc 0)
              = ((Some [1], Some (Failure ''connection refused'')), Suc (Suc 0))"
    by (simp add: ex_defs)
  have h3: "queryResolver.resultCompleter store_execute_fails () ex_author None
              (Some (GQLWrapf (Failure ''connection refused'') ''Dgraph query failed''))
              (Suc (Suc 0))
            = ((None, Some (GqlWrapped (Failure ''connection refused'')
                              ''Dgraph query failed'')), Suc (Suc (Suc 0)))"
    by (simp add: ex_defs GQLWrapf_def)
  show ?thesis
    using h1 h2 h3 execute_failure_wrapped_for_completer [OF h1 h2 h3]
    by (simp add: ex_defs GQLWrapf_def)
qed

section \<open>Which errors are wrapped\<close>

text \<open>
  The claim C5 as the specification words it fails twice. On the HTTP path an error of
  the field's descriptor is handed to the completer as it is, with no wrapper and so no
  cause and no context. On the store path an executor error is wrapped with the context
  "Dgraph query failed", which does not mention the response name of the field.
\<close>

theorem errors_wrapped_with_stage_and_name_counterexample:
  "fst (httpResolver_rewriteAndExecute ex_NewRequest remote_ok () ex_plain ex_world)
     = (None, Some (Failure ''queryPost has no custom directive''))
   \<and> \<not> wrappedWithStageAndName ex_plain (Failure ''queryPost has no custom directive'')
         (Failure ''queryPost has no custom directive'')
   \<and> fst (queryResolver_rewriteAndExecute store_execute_fails () ex_author ex_world)
       = (None, Some (GqlWrapped (Failure ''connection refused'') ''Dgraph query failed''))
   \<and> \<not> wrappedWithStageAndName ex_author (Failure ''connection refused'')
         (GqlWrapped (Failure ''connection refused'') ''Dgraph query failed'')"
proof -
  have "\<not> sublist ''getAuthor'' ''Dgraph query failed''"
    by code_simp
  then show ?thesis
    by (simp add: ex_defs store_defs remote_defs wrappedWithStageAndName_def)
qed

text \<open>
  C5, amended: An error of the rewriter is handed onward wrapped with the context
  "couldn't rewrite query" followed by the response name of the field, and an error of
  the executor wrapped with the context "Dgraph query failed" (no field name); both
  wrappers keep the collaborator's error as their cause. On the HTTP path the errors of
  the descriptor, of the request construction, of the transport and of reading the body
  are handed onward unchanged.
\<close>

theorem errors_handed_onward:
  "(queryRewriter qr ctx q (outside w) = ((g, Some e), s') \<longrightarrow>
      fst (queryResolver_rewriteAndExecute qr ctx q w)
        = (None, Some (GQLWrapf e (''couldn't rewrite query '' @ ResponseName q)))
      \<and> wrappedWithStageAndName q e
          (GQLWrapf e (''couldn't rewrite query '' @ ResponseName q)))
   \<and> (queryRewriter qr ctx q (outside w) = ((g, None), s') \<and>
        queryExecutor qr ctx g s' = ((b, Some e), s'') \<longrightarrow>
      fst (queryResolver_rewriteAndExecute qr ctx q w)
        = (None, Some (GQLWrapf e ''Dgraph query failed''))
      \<and> Cause (GQLWrapf e ''Dgraph query failed'') = Some e
      \<and> Message (GQLWrapf e ''Dgraph query failed'') = Some ''Dgraph query failed'')
   \<and> (HTTPResolver q = (hrc, Some e) \<longrightarrow>
      fst (httpResolver_rewriteAndExecute NewRequest hr ctx q w) = (None, Some e))
   \<and> (HTTPResolver q = (hrc, None) \<and>
        NewRequest (Method hrc) (URL hrc) (Body hrc) = Inl e \<longrightarrow>
      fst (httpResolver_rewriteAndExecute NewRequest hr ctx q w) = (None, Some e))
   \<and> (HTTPResolver q = (hrc, None) \<and>
        NewRequest (Method hrc) (URL hrc) (Body hrc) = Inr req \<and>
        Client hr req (outside w) = (Inl e, s') \<longrightarrow>
      fst (httpResolver_rewriteAndExecute NewRequest hr ctx q w) = (None, Some e))
   \<and> (HTTPResolver q = (hrc, None) \<and>
        NewRequest (Method hrc) (URL hrc) (Body hrc) = Inr req \<and>
        Client hr req (outside w) = (Inr resp, s') \<and>
        RespBody resp = ReadCloser bs (Some e) \<longrightarrow>
      fst (httpResolver_rewriteAndExecute NewRequest hr ctx q w) = (Some bs, Some e))"
  using wrapped_by_GQLWrapf [of q e "''couldn't rewrite query ''"]
  by (simp add: store_defs remote_defs del: append.simps)

theorem errors_handed_onward_witness:
  "queryRewriter store_rewrite_fails () ex_author (outside ex_world)
     = ((None, Some (Failure ''unknown type'')), Suc 0)
   \<and> fst (queryResolver_rewriteAndExecute store_rewrite_fails () ex_author ex_world)
       = (None, Some (GqlWrapped (Failure ''unknown type'')
                        ''couldn't rewrite query getAuthor''))
   \<and> queryRewriter store_execute_fails () ex_author (outside ex_world)
       = ((Some ''query getAuthor'', None), Suc 0)
   \<and> queryExecutor store_execute_fails () (Some ''query getAuthor'') (Suc 0)
       = ((Some [1], Some (Failure ''connection refused'')), Suc (Suc 0))
   \<and> fst (queryResolver_rewriteAndExecute store_execute_fails () ex_author ex_world)
       = (None, Some (GqlWrapped (Failure ''connection refused'') ''Dgraph query failed''))
   \<and> HTTPResolver ex_plain
       = (\<lparr>URL = '''', Method = '''', Body = ''''\<rparr>,
          Some (Failure ''queryPost has no custom directive''))
   \<and> fst (httpResolver_rewriteAndExecute ex_NewRequest remote_ok () ex_plain ex_world)
       = (None, Some (Failure ''queryPost has no custom directive''))
   \<and> HTTPResolver ex_nourl = (\<lparr>URL = '''', Method = ''GET'', Body = ''''\<rparr>, None)
   \<and> ex_NewRequest ''GET'' '''' '''' = Inl (Failure ''empty url'')
   \<and> fst (httpResolver_rewriteAndExecute ex_NewRequest remote_ok () ex_nourl ex_world)
       = (None, Some (Failure ''empty url''))
   \<and> HTTPResolver ex_author
       = (\<lparr>URL = ''http://authors.example/api'', Method = ''GET'', Body = ''''\<rparr>, None)
   \<and> ex_NewRequest ''GET'' ''http://authors.example/api'' ''''
       = Inr \<lparr>ReqMethod = ''GET'', ReqURL = ''http://authors.example/api'', ReqBody = ''''\<rparr>
   \<and> Client remote_down
         \<lparr>ReqMethod = ''GET'', ReqURL = ''http://authors.example/api'', ReqBody = ''''\<rparr>
         (outside ex_world)
       = (Inl (Failure ''dial tcp: timeout''), Suc 0)
   \<and> fst (httpResolver_rewriteAndExecute ex_NewRequest remote_down () ex_author ex_world)
       = (None, Some (Failure ''dial tcp: timeout''))
   \<and> Client remote_cut
         \<lparr>ReqMethod = ''GET'', ReqURL = ''http://authors.example/api'', ReqBody = ''''\<rparr>
         (outside ex_world)
       = (Inr \<lparr>StatusCode = 200,
               RespBody = ReadCloser [104] (Some (Failure ''unexpected EOF''))\<rparr>, Suc 0)
   \<and> fst (httpResolver_rewriteAndExecute ex_NewRequest remote_cut () ex_author ex_world)
       = (Some [104], Some (Failure ''unexpected EOF''))"
proof -
  let ?hrc = "\<lparr>URL = ''http://authors.example/api'', Method = ''GET'', Body = ''''\<rparr>"
  let ?req = "\<lparr>ReqMethod = ''GET'', ReqURL = ''http://authors.example/api'', ReqBody = ''''\<rparr>"
  let ?resp = "\<lparr>StatusCode = 200,
                RespBody = ReadCloser [104] (Some (Failure ''unexpected EOF''))\<rparr>"
  have rw_fails: "queryRewriter store_rewrite_fails () ex_author (outside ex_world)
                    = ((None, Some (Failure ''unknown type'')), Suc 0)"
    by (simp add: ex_defs)
  have rw_ok: "queryRewriter store_execute_fails () ex_author (outside ex_world)
                 = ((Some ''query getAuthor'', None), Suc 0)"
    by (simp add: ex_defs)
  have ex_fails: "queryExecutor store_execute_fails () (Some ''query getAuthor'') (Suc 0)
                    = ((Some [1], Some (Failure ''connection refused'')), Suc (Suc 0))"
    by (simp add: ex_defs)
  have plain: "HTTPResolver ex_plain
                 = (\<lparr>URL = '''', Method = '''', Body = ''''\<rparr>,
                    Some (Failure ''queryPost has no custom directive''))"
    by (simp add: ex_defs)
  have nourl: "HTTPResolver ex_nourl = (\<lparr>URL = '''', Method = ''GET'', Body = ''''\<rparr>, None)"
    by (simp add: ex_defs)
  have noreq: "ex_NewRequest ''GET'' '''' '''' = Inl (Failure ''empty url'')"
    by (simp add: ex_defs)
  have author: "HTTPResolver ex_author = (?hrc, None)"
    by (simp add: ex_defs)
  have req: "ex_NewRequest ''GET'' ''http://authors.example/api'' '''' = Inr ?req"
    by (simp add: ex_defs)
  have down: "Client remote_down ?req (outside ex_world)
                = (Inl (Failure ''dial tcp: timeout''), Suc 0)"
    by (simp add: ex_defs)
  have cut: "Client remote_cut ?req (outside ex_world) = (Inr ?resp, Suc 0)"
    by (simp add: ex_defs)
  have c1: "fst (queryResolver_rewriteAndExecute store_rewrite_fails () ex_author ex_world)
              = (None, Some (GqlWrapped (Failure ''unknown type'')
                               ''couldn't rewrite query getAuthor''))"
    using rw_fails
      errors_handed_onward [where qr = store_rewrite_fails and ctx = "()" and q = ex_author
        and w = ex_world and g = None and e = "Failure ''unknown type''" and s' = "Suc 0"]
    by (simp add: GQLWrapf_def ex_author_def)
  have c2: "fst (queryResolver_rewriteAndExecute store_execute_fails () ex_author ex_world)
              = (None, Some (GqlWrapped (Failure ''connection refused'')
                               ''Dgraph query failed''))"
    using rw_ok ex_fails
      errors_handed_onward [where qr = store_execute_fails and ctx = "()" and q = ex_author
        and w = ex_world and g = "Some ''query getAuthor''" and s' = "Suc 0"
        and b = "Some [1]" and e = "Failure ''connection refused''" and s'' = "Suc (Suc 0)"]
    by (simp add: GQLWrapf_def)
  have c3: "fst (httpResolver_rewriteAndExecute ex_NewRequest remote_ok () ex_plain ex_world)
              = (None, Some (Failure ''queryPost has no custom directive''))"
    using plain
      errors_handed_onward [where q = ex_plain
        and hrc = "\<lparr>URL = '''', Method = '''', Body = ''''\<rparr>"
        and e = "Failure ''queryPost has no custom directive''"
        and NewRequest = ex_NewRequest and hr = remote_ok and ctx = "()" and w = ex_world]
    by simp
  have c4: "fst (httpResolver_rewriteAndExecute ex_NewRequest remote_ok () ex_nourl ex_world)
              = (None, Some (Failure ''empty url''))"
    using nourl noreq
      errors_handed_onward [where q = ex_nourl
        and hrc = "\<lparr>URL = '''', Method = ''GET'', Body = ''''\<rparr>"
        and e = "Failure ''empty url''"
        and NewRequest = ex_NewRequest and hr = remote_ok and ctx = "()" and w = ex_world]
    by simp
  have c5: "fst (httpResolver_rewriteAndExecute ex_NewRequest remote_down () ex_author ex_world)
              = (None, Some (Failure ''dial tcp: timeout''))"
    using author req down
      errors_handed_onward [where q = ex_author and hrc = ?hrc and req = ?req
        and e = "Failure ''dial tcp: timeout''" and s' = "Suc 0"
        and NewRequest = ex_NewRequest and hr = remote_down and ctx = "()" and w = ex_world]
    by simp
  have c6: "fst (httpResolver_rewriteAndExecute ex_NewRequest remote_cut () ex_author ex_world)
              = (Some [104], Some (Failure ''unexpected EOF''))"
    using author req cut
      errors_handed_onward [where q = ex_author and hrc = ?hrc and req = ?req
        and resp = ?resp and bs = "[104]"
        and e = "Failure ''unexpected EOF''" and s' = "Suc 0"
        and NewRequest = ex_NewRequest and hr = remote_cut and ctx = "()" and w = ex_world]
    by simp
  show ?thesis
    using rw_fails rw_ok ex_fails plain nourl noreq author req down cut c1 c2 c3 c4 c5 c6
    by simp
qed

section \<open>The HTTP-backed pipeline\<close>

text \<open>
  C6: If the \<^verbatim>\<open>HTTPResolver()\<close> accessor of the field returns a non-nil error, no HTTP
  request is constructed or issued during that \<^verbatim>\<open>Resolve\<close> (the client never runs, so
  the outside world is what the completer alone made of it), and the completer receives
  a nil raw result with that non-nil error.
\<close>

theorem descriptor_failure_issues_no_request:
  assumes "HTTPResolver query = (hrc, Some e)"
    and "httpResolver.resultCompleter hr ctx query None (Some e) (outside w) = ((d, e'), s')"
  shows "httpResolver_Resolve NewRequest hr ctx query w =
           (Some \<lparr>Data = d, Err = e'\<rparr>,
            \<lparr>calls = calls w @
               [SpanStart ''resolveHTTPQuery'', EvHTTPResolver query,
                EvComplete ctx query None (Some e), SpanStop ''resolveHTTPQuery''],
             outside = s'\<rparr>)
         \<and> filter isRequest (calls (snd (httpResolver_Resolve NewRequest hr ctx query w)))
             = filter isRequest (calls w)"
  using assms by (simp add: remote_defs)

theorem descriptor_failure_issues_no_request_witness:
  "HTTPResolver ex_plain
     = (\<lparr>URL = '''', Method = '''', Body = ''''\<rparr>,
        Some (Failure ''queryPost has no custom directive''))
   \<and> httpResolver.resultCompleter remote_ok () ex_plain None
         (Some (Failure ''queryPost has no custom directive'')) (outside ex_world)
       = ((None, Some (Failure ''queryPost has no custom directive'')), Suc 0)
   \<and> httpResolver_Resolve ex_NewRequest remote_ok () ex_plain ex_world =
         (Some \<lparr>Data = None, Err = Some (Failure ''queryPost has no custom directive'')\<rparr>,
          \<lparr>calls =
             [SpanStart ''resolveHTTPQuery'', EvHTTPResolver ex_plain,
              EvComplete () ex_plain None (Some (Failure ''queryPost has no custom directive'')),
              SpanStop ''resolveHTTPQuery''],
           outside = Suc 0\<rparr>)"
proof -
  have h1: "HTTPResolver ex_plain
              = (\<lparr>URL = '''', Method = '''', Body = ''''\<rparr>,
                 Some (Failure ''queryPost has no custom directive''))"
    by (simp add: ex_defs)
  have h2: "httpResolver.resultCompleter remote_ok () ex_plain None
              (Some (Failure ''queryPost has no custom directive'')) (outside ex_world)
            = ((None, Some (Failure ''queryPost has no custom directive'')), Suc 0)"
    by (simp add: ex_defs)
  have "calls ex_world = []"
    by (simp add: ex_defs)
  then show ?thesis
    using h1 h2 descriptor_failure_issues_no_request [OF h1 h2, of ex_NewRequest]
    by simp
qed

text \<open>
  C7: If the descriptor is there, the request is built and the client answers with a
  response, the body is read whole and then closed before \<^verbatim>\<open>Resolve\<close> returns (before
  the completer is even called), whether reading succeeded or failed, and the completer
  receives exactly the bytes read together with the reading error. When reading
  succeeded these are the full body and a nil error.
\<close>

theorem response_body_read_and_closed:
  assumes "HTTPResolver query = (hrc, None)"
    and "NewRequest (Method hrc) (URL hrc) (Body hrc) = Inr req"
    and "Client hr req (outside w) = (Inr resp, s')"
    and "RespBody resp = ReadCloser bs rerr"
    and "httpResolver.resultCompleter hr ctx query (Some bs) rerr s' = ((d, e'), s'')"
  shows "httpResolver_Resolve NewRequest hr ctx query w =
           (Some \<lparr>Data = d, Err = e'\<rparr>,
            \<lparr>calls = calls w @
               [SpanStart ''resolveHTTPQuery'', EvHTTPResolver query,
                EvNewRequest (Method hrc) (URL hrc) (Body hrc), EvDo req,
                EvReadAll (RespBody resp), EvClose (RespBody resp),
                EvComplete ctx query (Some bs) rerr, SpanStop ''resolveHTTPQuery''],
             outside = s''\<rparr>)"
  using assms by (simp add: remote_defs)

theorem response_body_read_and_closed_witness:
  "HTTPResolver ex_author
     = (\<lparr>URL = ''http://authors.example/api'', Method = ''GET'', Body = ''''\<rparr>, None)
   \<and> ex_NewRequest ''GET'' ''http://authors.example/api'' ''''
       = Inr \<lparr>ReqMethod = ''GET'', ReqURL = ''http://authors.example/api'', ReqBody = ''''\<rparr>
   \<and> Client remote_ok
         \<lparr>ReqMethod = ''GET'', ReqURL = ''http://authors.example/api'', ReqBody = ''''\<rparr>
         (outside ex_world)
       = (Inr \<lparr>StatusCode = 200, RespBody = ReadCloser [104, 105] None\<rparr>, Suc 0)
   \<and> httpResolver.resultCompleter remote_ok () ex_author (Some [104, 105]) None (Suc 0)
       = ((Some [104, 105], None), Suc (Suc 0))
   \<and> httpResolver_Resolve ex_NewRequest remote_ok () ex_author ex_world =
         (Some \<lparr>Data = Some [104, 105], Err = None\<rparr>,
          \<lparr>calls =
             [SpanStart ''resolveHTTPQuery'', EvHTTPResolver ex_author,
              EvNewRequest ''GET'' ''http://authors.example/api'' '''',
              EvDo \<lparr>ReqMethod = ''GET'', ReqURL = ''http://authors.example/api'',
                    ReqBody = ''''\<rparr>,
              EvReadAll (ReadCloser [104, 105] None), EvClose (ReadCloser [104, 105] None),
              EvComplete () ex_author (Some [104, 105]) None,
              SpanStop ''resolveHTTPQuery''],
           outside = Suc (Suc 0)\<rparr>)
   \<and> Client remote_cut
         \<lparr>ReqMethod = ''GET'', ReqURL = ''http://authors.example/api'', ReqBody = ''''\<rparr>
         (outside ex_world)
       = (Inr \<lparr>StatusCode = 200,
               RespBody = ReadCloser [104] (Some (Failure ''unexpected EOF''))\<rparr>, Suc 0)
   \<and> httpResolver.resultCompleter remote_cut () ex_author (Some [104])
         (Some (Failure ''unexpected EOF'')) (Suc 0)
       = ((Some [104], Some (Failure ''unexpected EOF'')), Suc (Suc 0))
   \<and> httpResolver_Resolve ex_NewRequest remote_cut () ex_author ex_world =
         (Some \<lparr>Data = Some [104], Err = Some (Failure ''unexpected EOF'')\<rparr>,
          \<lparr>calls =
             [SpanStart ''resolveHTTPQuery'', EvHTTPResolver ex_author,
              EvNewRequest ''GET'' ''http://authors.example/api'' '''',
              EvDo \<lparr>ReqMethod = ''GET'', ReqURL = ''http://authors.example/api'',
                    ReqBody = ''''\<rparr>,
              EvReadAll (ReadCloser [104] (Some (Failure ''unexpected EOF''))),
              EvClose (ReadCloser [104] (Some (Failure ''unexpected EOF''))),
              EvComplete () ex_author (Some [104]) (Some (Failure ''unexpected EOF'')),
              SpanStop ''resolveHTTPQuery''],
           outside = Suc (Suc 0)\<rparr>)"
proof -
  let ?hrc = "\<lparr>URL = ''http://authors.example/api'', Method = ''GET'', Body = ''''\<rparr>"
  let ?req = "\<lparr>ReqMethod = ''GET'', ReqURL = ''http://authors.example/api'', ReqBody = ''''\<rparr>"
  let ?ok = "\<lparr>StatusCode = 200, RespBody = ReadCloser [104, 105] None\<rparr>"
  let ?cut = "\<lparr>StatusCode = 200,
               RespBody = ReadCloser [104] (Some (Failure ''unexpected EOF''))\<rparr>"
  have h1: "HTTPResolver ex_author = (?hrc, None)"
    by (simp add: ex_defs)
  have h2: "ex_NewRequest (Method ?hrc) (URL ?hrc) (Body ?hrc) = Inr ?req"
    by (simp add: ex_defs)
  have h3: "Client remote_ok ?req (outside ex_world) = (Inr ?ok, Suc 0)"
    by (simp add: ex_defs)
  have h4: "RespBody ?ok = ReadCloser [104, 105] None"
    by simp
  have h5: "httpResolver.resultCompleter remote_ok () ex_author (Some [104, 105]) None (Suc 0)
              = ((Some [104, 105], None), Suc (Suc 0))"
    by (simp add: ex_defs)
  have k3: "Client remote_cut ?req (outside ex_world) = (Inr ?cut, Suc 0)"
    by (simp add: ex_defs)
  have k4: "RespBody ?cut = ReadCloser [104] (Some (Failure ''unexpected EOF''))"
    by simp
  have k5: "httpResolver.resultCompleter remote_cut () ex_author (Some [104])
              (Some (Failure ''unexpected EOF'')) (Suc 0)
            = ((Some [104], Some (Failure ''unexpected EOF'')), Suc (Suc 0))"
    by (simp add: ex_defs)
  have "calls ex_world = []"
    by (simp add: ex_defs)
  then show ?thesis
    using h1 h2 h3 h5 k3 k5
      response_body_read_and_closed [where NewRequest = ex_NewRequest, OF h1 h2 h3 h4 h5]
      response_body_read_and_closed [where NewRequest = ex_NewRequest, OF h1 h2 k3 k4 k5]
    by simp
qed

section \<open>The no-op and introspection adapters\<close>

text \<open>
  C8: For every field and context the no-op rewriter returns (nil, nil) and the no-op
  executor returns (nil, nil), neither touching the outside world, and a store-backed
  resolver built from the two calls its completer with a nil raw result and a nil error.
\<close>

theorem noop_pair_completes_nil_nil:
  "NoOpQueryRewrite ctx q s = ((None, None), s) \<and>
   NoOpQueryExecution ctx g s = ((None, None), s) \<and>
   calls (snd (queryResolver_Resolve
                 (NewQueryResolver NoOpQueryRewrite NoOpQueryExecution rc) ctx q w))
     = calls w @ [SpanStart ''resolveQuery'', EvRewrite ctx q, EvQuery ctx None,
                  EvComplete ctx q None None, SpanStop ''resolveQuery''] \<and>
   fst (queryResolver_Resolve
          (NewQueryResolver NoOpQueryRewrite NoOpQueryExecution rc) ctx q w)
     = Some \<lparr>Data = fst (fst (rc ctx q None None (outside w))),
             Err = snd (fst (rc ctx q None None (outside w)))\<rparr>"
  by (simp add: store_defs NoOpQueryRewrite_def NoOpQueryExecution_def NewQueryResolver_def
      split: prod.splits)

text \<open>
  C9: The executor built by \<^verbatim>\<open>introspectionExecution\<close> from a field \<open>q\<close> gives the same
  answer for any two native queries, nil included: the introspection of \<open>q\<close>.
\<close>

theorem introspectionExecution_ignores_query:
  "introspectionExecution Introspect q ctx g1 s = introspectionExecution Introspect q ctx g2 s
   \<and> introspectionExecution Introspect q ctx g1 s = Introspect q s
   \<and> introspectionExecution Introspect q ctx None s = Introspect q s"
  by (simp add: introspectionExecution_def)

text \<open>
  C10: \<^verbatim>\<open>Resolve\<close> of the HTTP-backed resolver never calls the rewriter and the executor
  it was constructed with: for every field, context, client and completer, two resolvers
  that differ only in these two collaborators return the same \<^verbatim>\<open>Resolved\<close>, after the
  same events and with the same outside world.
\<close>

theorem httpResolver_ignores_rewriter_executor:
  "httpResolver_Resolve NewRequest (NewHTTPResolver hc qr1 qe1 rc) ctx query w
     = httpResolver_Resolve NewRequest (NewHTTPResolver hc qr2 qe2 rc) ctx query w"
  by (simp add: httpResolver_Resolve_def httpResolver_rewriteAndExecute_def NewHTTPResolver_def
      split: prod.splits option.splits sum.splits)

end
